theory Spec2Isabelle
  imports Main "HOL-Library.List_Lexorder" "HOL-Library.Char_ord"
begin

section \<open>JavaScript values\<close>

text \<open>
  The handlers of the gateway work on values produced by the JSON body parser, the query
  string parser and the cookie parser. They are modelled by one datatype. An object is an
  association list in the key order of the JavaScript object. A number is carried by the
  string that \<open>Number.prototype.toString\<close> gives for it (\<open>0\<close> for both zeros, \<open>1e+21\<close>,
  \<open>0.5\<close>, \<open>Infinity\<close>): two numbers are equal when these strings are, and no handler
  computes with a number. No parser gives \<open>NaN\<close>.
\<close>

datatype json =
    JUndefined
  | JNull
  | JBool bool
  | JNum string
  | JStr string
  | JArr "json list"
  | JObj "(string \<times> json) list"

datatype js_error = TypeError | BackendError

text \<open>The values for which \<open>!v\<close> is false.\<close>

fun truthy :: "json \<Rightarrow> bool" where
  "truthy JUndefined = False"
| "truthy JNull = False"
| "truthy (JBool b) = b"
| "truthy (JNum n) = (n \<noteq> ''0'')"
| "truthy (JStr s) = (s \<noteq> [])"
| "truthy (JArr xs) = True"
| "truthy (JObj kvs) = True"

fun nullish :: "json \<Rightarrow> bool" where
  "nullish JUndefined = True"
| "nullish JNull = True"
| "nullish v = False"

text \<open>
  \<open>a === b\<close> for two values that come from different parsers (query string and cookies):
  primitives are compared by value, arrays and objects by reference, and two separately
  parsed arrays or objects are never the same reference.
\<close>

fun strict_eq :: "json \<Rightarrow> json \<Rightarrow> bool" where
  "strict_eq (JArr xs) b = False"
| "strict_eq (JObj kvs) b = False"
| "strict_eq a b = (a = b)"

text \<open>\<open>a || b\<close> and \<open>a ?? b\<close>.\<close>

definition js_or :: "json \<Rightarrow> json \<Rightarrow> json" where
  "js_or a b = (if truthy a then a else b)"

definition coalesce :: "json \<Rightarrow> json \<Rightarrow> json" where
  "coalesce a b = (if nullish a then b else a)"

text \<open>
  Reading a named entry of a parsed object (\<open>req.query\<close>, \<open>req.cookies\<close>): \<open>undefined\<close>
  when the key is absent.
\<close>

definition entry :: "(string \<times> json) list \<Rightarrow> string \<Rightarrow> json" where
  "entry kvs k = (case map_of kvs k of None \<Rightarrow> JUndefined | Some v \<Rightarrow> v)"

text \<open>
  \<open>v.k\<close> on a value that is neither \<open>null\<close> nor \<open>undefined\<close>, for the property names
  the handlers read (none of them is a property of an array, a string, a number or a
  boolean).
\<close>

fun read_prop :: "json \<Rightarrow> string \<Rightarrow> json" where
  "read_prop (JObj kvs) k = entry kvs k"
| "read_prop v k = JUndefined"

text \<open>\<open>v.k\<close> and destructuring \<open>const { k } = v\<close>: a TypeError on \<open>null\<close> and \<open>undefined\<close>.\<close>

definition get_prop :: "json \<Rightarrow> string \<Rightarrow> js_error + json" where
  "get_prop v k = (if nullish v then Inl TypeError else Inr (read_prop v k))"

text \<open>Writing a property of an object: in place when the key exists, appended otherwise.\<close>

primrec obj_set :: "'k \<Rightarrow> 'v \<Rightarrow> ('k \<times> 'v) list \<Rightarrow> ('k \<times> 'v) list" where
  "obj_set k v [] = [(k, v)]"
| "obj_set k v (p # ps) = (if fst p = k then (k, v) # ps else p # obj_set k v ps)"

text \<open>\<open>{ ...v }\<close> for the value the chat handler spreads, which is an object there.\<close>

fun spread :: "json \<Rightarrow> (string \<times> json) list" where
  "spread (JObj kvs) = kvs"
| "spread v = []"

subsection \<open>Strings\<close>

definition digit :: "nat \<Rightarrow> char" where
  "digit d = ''0123456789'' ! (d mod 10)"

fun decimal :: "nat \<Rightarrow> string" where
  "decimal n = (if n < 10 then [digit n] else decimal (n div 10) @ [digit n])"

declare decimal.simps [simp del]

fun join :: "string \<Rightarrow> string list \<Rightarrow> string" where
  "join sep [] = []"
| "join sep [s] = s"
| "join sep (s # t # ss) = s @ sep @ join sep (t # ss)"

text \<open>The results of a sequence of evaluations, up to the first one that throws.\<close>

fun all_results :: "('e + 'a) list \<Rightarrow> 'e + 'a list" where
  "all_results [] = Inr []"
| "all_results (Inl err # rs) = Inl err"
| "all_results (Inr x # rs) = (case all_results rs of Inl err \<Rightarrow> Inl err | Inr xs \<Rightarrow> Inr (x # xs))"

text \<open>
  The string conversion of template literals and of \<open>toString()\<close>. An array joins the
  conversions of its elements with commas, \<open>null\<close> and \<open>undefined\<close> elements giving the
  empty string. An object without a \<open>toString\<close> member of its own inherits the one that
  gives \<open>[object Object]\<close>; a member of its own is parsed data and not callable, and the
  conversion throws a TypeError.
\<close>

fun to_string :: "json \<Rightarrow> js_error + string" where
  "to_string JUndefined = Inr ''undefined''"
| "to_string JNull = Inr ''null''"
| "to_string (JBool b) = Inr (if b then ''true'' else ''false'')"
| "to_string (JNum n) = Inr n"
| "to_string (JStr s) = Inr s"
| "to_string (JArr xs) =
     (case all_results (map (\<lambda>x. if nullish x then Inr [] else to_string x) xs) of
        Inl err \<Rightarrow> Inl err
      | Inr strs \<Rightarrow> Inr (join '','' strs))"
| "to_string (JObj kvs) =
     (if ''toString'' \<in> set (map fst kvs) then Inl TypeError else Inr ''[object Object]'')"

text \<open>
  A string is the UTF-8 byte sequence of the JavaScript string. \<open>String.prototype.trim\<close>
  removes the white space and line terminator characters of the language from both ends:
  U+0009 to U+000D, U+0020, U+00A0, U+1680, U+2000 to U+200A, U+2028, U+2029, U+202F,
  U+205F, U+3000 and U+FEFF, listed here in their UTF-8 encoding.
\<close>

definition white_space :: "string list" where
  "white_space =
     [[CHR 0x09], [CHR 0x0A], [CHR 0x0B], [CHR 0x0C], [CHR 0x0D], [CHR 0x20], [CHR 0xC2, CHR 0xA0],
      [CHR 0xE1, CHR 0x9A, CHR 0x80], [CHR 0xE2, CHR 0x80, CHR 0x80], [CHR 0xE2, CHR 0x80, CHR 0x81],
      [CHR 0xE2, CHR 0x80, CHR 0x82], [CHR 0xE2, CHR 0x80, CHR 0x83], [CHR 0xE2, CHR 0x80, CHR 0x84],
      [CHR 0xE2, CHR 0x80, CHR 0x85], [CHR 0xE2, CHR 0x80, CHR 0x86], [CHR 0xE2, CHR 0x80, CHR 0x87],
      [CHR 0xE2, CHR 0x80, CHR 0x88], [CHR 0xE2, CHR 0x80, CHR 0x89], [CHR 0xE2, CHR 0x80, CHR 0x8A],
      [CHR 0xE2, CHR 0x80, CHR 0xA8], [CHR 0xE2, CHR 0x80, CHR 0xA9], [CHR 0xE2, CHR 0x80, CHR 0xAF],
      [CHR 0xE2, CHR 0x81, CHR 0x9F], [CHR 0xE3, CHR 0x80, CHR 0x80], [CHR 0xEF, CHR 0xBB, CHR 0xBF]]"

text \<open>The number of bytes of the white space character a string starts with, 0 when it starts with none.\<close>

definition ws_length :: "string \<Rightarrow> nat" where
  "ws_length s =
     (case find (\<lambda>w. take (length w) s = w) white_space of None \<Rightarrow> 0 | Some w \<Rightarrow> length w)"

fun trim_start :: "string \<Rightarrow> string" where
  "trim_start [] = []"
| "trim_start (c # s) =
     (if ws_length (c # s) = 0 then c # s else trim_start (drop (ws_length (c # s) - 1) s))"

text \<open>The end is cut where the rest of the string is white space only.\<close>

fun trim_end :: "string \<Rightarrow> string" where
  "trim_end [] = []"
| "trim_end (c # s) = (if trim_start (c # s) = [] then [] else c # trim_end s)"

definition trim :: "string \<Rightarrow> string" where
  "trim s = trim_end (trim_start s)"

text \<open>\<open>v?.trim()\<close>: \<open>undefined\<close> on a nullish value, a TypeError on a value that is not a string.\<close>

fun opt_trim :: "json \<Rightarrow> js_error + json" where
  "opt_trim JUndefined = Inr JUndefined"
| "opt_trim JNull = Inr JUndefined"
| "opt_trim (JStr s) = Inr (JStr (trim s))"
| "opt_trim v = Inl TypeError"

text \<open>Lower case of a header name, whose characters are ASCII.\<close>

definition to_lower :: "char \<Rightarrow> char" where
  "to_lower c = (let n = (of_char c :: nat) in if 65 \<le> n \<and> n \<le> 90 then char_of (n + 32) else c)"

definition lower_case :: "string \<Rightarrow> string" where
  "lower_case s = map to_lower s"

section \<open>Requests, replies and the outside world\<close>

record env =
  CLIENT_ID :: string
  CLIENT_SECRET :: string
  FQDN :: string
  CONTEXT :: string
  DEFAULT_MODEL :: string

text \<open>
  A request as the middleware hands it to a handler: the parsed query, the parsed cookies,
  the headers under their lower-case names, and the parsed JSON body.
\<close>

record request =
  query :: "(string \<times> json) list"
  cookies :: "(string \<times> json) list"
  headers :: "(string \<times> string) list"
  body :: json

text \<open>\<open>req.get(name)\<close>: the header is looked up under the lower-case name.\<close>

definition req_get :: "request \<Rightarrow> string \<Rightarrow> json" where
  "req_get req name =
     (case map_of (headers req) (map to_lower name) of None \<Rightarrow> JUndefined | Some s \<Rightarrow> JStr s)"

record upstream =
  up_status :: nat
  up_headers :: "(string \<times> string) list"
  up_body :: "string list"

text \<open>
  The remote services, as functions of what the gateway sends them. \<open>None\<close> is a call
  that throws (transport failure, a non-success status of the identity endpoint, a body
  that is not JSON). The answer of the token endpoint and of the identity endpoint is the
  parsed JSON; the answer of the completion endpoint is its status, its header lines as
  they are received (name and value, in any letter case, a name possibly repeated) and its
  body as the chunks that arrive. The retrieval backend is called by the tool handler and
  is no part of the sources.
\<close>

record services =
  token_endpoint :: "(string \<times> string) list \<Rightarrow> json option"
  get_user :: "json \<Rightarrow> json option"
  chat_completions :: "string \<Rightarrow> json \<Rightarrow> upstream option"
  retrieveFromYourIndex :: "json \<Rightarrow> js_error + json"

datatype call =
    TokenExchange "(string \<times> string) list"
  | GetUser json
  | ChatCompletions string json
  | Retrieve json

text \<open>
  What happens while a body is relayed, in order: a chunk arrives from the upstream body, a
  chunk is written to the caller, the reply is ended.
\<close>

datatype event = Read string | Write string | Finish

text \<open>
  What a handler answers: \<open>res.status(n).send(text)\<close>, \<open>res.redirect(url)\<close>,
  \<open>res.json(value)\<close>, \<open>res.status(n).end()\<close>, or \<open>res.writeHead(status, headers)\<close>
  with the object it is given, followed by the events of the relay.
\<close>

datatype reply =
    Send nat string
  | Redirect string
  | Json json
  | End nat
  | Stream nat "(string \<times> string) list" "event list"

fun status_of :: "reply \<Rightarrow> nat" where
  "status_of (Send n text) = n"
| "status_of (Redirect url) = 302"
| "status_of (Json v) = 200"
| "status_of (End n) = n"
| "status_of (Stream n hs events) = n"

text \<open>
  The outcome of one request: the reply, or the error an async handler throws without
  replying; the cookies written with \<open>res.cookie\<close> (all with the attributes
  \<open>httpOnly\<close> and \<open>sameSite: lax\<close>); and the calls made to the remote services, in order.
\<close>

record outcome =
  reply :: "js_error + reply"
  set_cookie :: "(string \<times> json) list"
  calls :: "call list"

text \<open>The HTTP status the caller sees, when the handler replies at all.\<close>

definition replied_status :: "outcome \<Rightarrow> nat option" where
  "replied_status out = (case reply out of Inl err \<Rightarrow> None | Inr r \<Rightarrow> Some (status_of r))"

section \<open>GET /auth/callback\<close>

text \<open>
  The body of the token request. \<open>code.toString()\<close> and \<open>state.toString()\<close> are evaluated
  when the request is built, inside the \<open>try\<close> block.
\<close>

definition token_request :: "env \<Rightarrow> json \<Rightarrow> json \<Rightarrow> js_error + (string \<times> string) list" where
  "token_request e code state =
     (case to_string code of
        Inl err \<Rightarrow> Inl err
      | Inr c \<Rightarrow>
          (case to_string state of
             Inl err \<Rightarrow> Inl err
           | Inr s \<Rightarrow>
               Inr [(''client_id'', CLIENT_ID e),
                    (''client_secret'', CLIENT_SECRET e),
                    (''code'', c),
                    (''redirect_uri'', FQDN e @ ''/auth/callback''),
                    (''state'', s)]))"

definition authentication_failed :: "call list \<Rightarrow> outcome" where
  "authentication_failed cs =
     \<lparr>reply = Inr (Send 500 ''Authentication failed''), set_cookie = [], calls = cs\<rparr>"

definition auth_callback :: "env \<Rightarrow> services \<Rightarrow> request \<Rightarrow> outcome" where
  "auth_callback e sv req =
     (let code = entry (query req) ''code'';
          state = entry (query req) ''state'';
          savedState = entry (cookies req) ''oauth_state''
      in if \<not> truthy code \<or> \<not> truthy state \<or> \<not> strict_eq state savedState
         then \<lparr>reply = Inr (Send 400 ''Invalid OAuth state or missing code''),
               set_cookie = [], calls = []\<rparr>
         else
           (case token_request e code state of
              Inl err \<Rightarrow> authentication_failed []
            | Inr tr \<Rightarrow>
                (case token_endpoint sv tr of
                   None \<Rightarrow> authentication_failed [TokenExchange tr]
                 | Some tok \<Rightarrow>
                     (case get_prop tok ''access_token'' of
                        Inl err \<Rightarrow> authentication_failed [TokenExchange tr]
                      | Inr access_token \<Rightarrow>
                          if truthy (read_prop tok ''error'') \<or> \<not> truthy access_token
                          then authentication_failed [TokenExchange tr]
                          else \<lparr>reply = Inr (Redirect ''/''),
                                set_cookie = [(''github_token'', access_token)],
                                calls = [TokenExchange tr]\<rparr>))))"

text \<open>
  The browser between two requests: each cookie of the reply is stored under its name,
  the other cookies stay. \<open>wire\<close> is what the cookie parser reads back for a value that
  \<open>res.cookie\<close> has written.
\<close>

definition store_cookies ::
  "(json \<Rightarrow> json) \<Rightarrow> (string \<times> json) list \<Rightarrow> (string \<times> json) list \<Rightarrow> (string \<times> json) list" where
  "store_cookies wire written jar = fold (\<lambda>(n, v). obj_set n (wire v)) written jar"

section \<open>POST /agent\<close>

text \<open>
  The model to use: \<open>bodyModel?.trim() || config?.model?.trim() || DEFAULT_MODEL\<close>. The
  right operand of \<open>||\<close> is evaluated only when the left one is falsy.
\<close>

definition config_model :: "json \<Rightarrow> js_error + json" where
  "config_model config =
     (if nullish config then Inr JUndefined else opt_trim (read_prop config ''model''))"

definition select_model :: "json \<Rightarrow> json \<Rightarrow> string \<Rightarrow> js_error + json" where
  "select_model bodyModel config dflt =
     (case opt_trim bodyModel of
        Inl err \<Rightarrow> Inl err
      | Inr a \<Rightarrow>
          if truthy a then Inr a
          else (case config_model config of
                  Inl err \<Rightarrow> Inl err
                | Inr b \<Rightarrow> if truthy b then Inr b else Inr (JStr dflt)))"

text \<open>The three system entries; the first one converts the login to a string.\<close>

definition system_prompts :: "env \<Rightarrow> json \<Rightarrow> js_error + json list" where
  "system_prompts e login =
     (case to_string login of
        Inl err \<Rightarrow> Inl err
      | Inr handle \<Rightarrow>
          Inr [JObj [(''role'', JStr ''system''),
                     (''content'', JStr (''Start every response with: @'' @ handle))],
               JObj [(''role'', JStr ''system''),
                     (''content'', JStr ''You are an expert assistant specializing in distributed systems and payments processing.'')],
               JObj [(''role'', JStr ''system''),
                     (''content'', JStr (''Project-specific context:'' @ [CHR 0x0A] @ trim (CONTEXT e)))]])"

definition outbound :: "json \<Rightarrow> json \<Rightarrow> json list \<Rightarrow> json list \<Rightarrow> json" where
  "outbound b selectedModel systemPrompts messages =
     JObj (obj_set ''messages'' (JArr (systemPrompts @ messages))
            (obj_set ''stream'' (JBool True)
              (obj_set ''model'' selectedModel (spread b))))"

text \<open>
  Iterating \<open>apiRes.headers\<close>: one entry per header name, the names in lower case and in
  sorted order, the values of a repeated name joined with a comma and a space.
\<close>

definition header_values :: "(string \<times> string) list \<Rightarrow> string \<Rightarrow> string list" where
  "header_values raw n = map snd (filter (\<lambda>p. lower_case (fst p) = n) raw)"

definition fetch_entries :: "(string \<times> string) list \<Rightarrow> (string \<times> string) list" where
  "fetch_entries raw =
     map (\<lambda>n. (n, join '', '' (header_values raw n)))
       (sort (remdups (map (\<lambda>p. lower_case (fst p)) raw)))"

text \<open>
  The header object given to \<open>writeHead\<close>:
  \<open>{ 'Content-Type': 'text/event-stream', ...Object.fromEntries(apiRes.headers) }\<close>.
  The keys of an object are case-sensitive.
\<close>

definition from_entries :: "(string \<times> string) list \<Rightarrow> (string \<times> string) list" where
  "from_entries es = fold (\<lambda>(k, v). obj_set k v) es []"

definition write_head_headers :: "(string \<times> string) list \<Rightarrow> (string \<times> string) list" where
  "write_head_headers raw =
     fold (\<lambda>(k, v). obj_set k v) (from_entries (fetch_entries raw))
       [(''Content-Type'', ''text/event-stream'')]"




text \<open>
  \<open>Readable.from(apiRes.body).pipe(res)\<close>: each chunk that arrives from the upstream
  body is written to the caller before the next one is awaited; the reply is ended when the
  upstream body ends.
\<close>

fun pipe :: "string list \<Rightarrow> event list" where
  "pipe [] = [Finish]"
| "pipe (chunk # rest) = Read chunk # Write chunk # pipe rest"



text \<open>
  The identity call, in one \<open>try\<close>: \<open>new Octokit({ auth: token })\<close> throws for a token
  that is not a string, before any request; then \<open>GET /user\<close> with the token, \<open>data.login\<close>,
  and the login converted to a string for the log line.
\<close>

definition resolve_login :: "services \<Rightarrow> json \<Rightarrow> json option" where
  "resolve_login sv token =
     (case token of
        JStr t \<Rightarrow>
          (case get_user sv token of
             None \<Rightarrow> None
           | Some data \<Rightarrow>
               (case get_prop data ''login'' of
                  Inl err \<Rightarrow> None
                | Inr login \<Rightarrow> (case to_string login of Inl err \<Rightarrow> None | Inr handle \<Rightarrow> Some login)))
      | other \<Rightarrow> None)"

text \<open>The identity endpoint is called for a token that is a string only.\<close>

definition octokit_calls :: "json \<Rightarrow> call list" where
  "octokit_calls token = (case token of JStr t \<Rightarrow> [GetUser token] | other \<Rightarrow> [])"

definition agent :: "env \<Rightarrow> services \<Rightarrow> request \<Rightarrow> outcome" where
  "agent e sv req =
     (let token = js_or (entry (cookies req) ''github_token'') (req_get req ''X-GitHub-Token'')
      in if \<not> truthy token
         then \<lparr>reply = Inr (Send 401 ''Unauthorized: missing GitHub token. Please authenticate at /auth/authorization''),
               set_cookie = [], calls = []\<rparr>
         else
           (case resolve_login sv token of
              None \<Rightarrow> \<lparr>reply = Inr (Send 401 ''Invalid GitHub token''),
                        set_cookie = [], calls = octokit_calls token\<rparr>
            | Some login \<Rightarrow>
                (case get_prop (body req) ''messages'' of
                   Inl err \<Rightarrow> \<lparr>reply = Inl err, set_cookie = [], calls = [GetUser token]\<rparr>
                 | Inr (JArr messages) \<Rightarrow>
                     (case select_model (read_prop (body req) ''model'')
                                        (read_prop (body req) ''config'') (DEFAULT_MODEL e) of
                        Inl err \<Rightarrow> \<lparr>reply = Inl err, set_cookie = [], calls = [GetUser token]\<rparr>
                      | Inr selectedModel \<Rightarrow>
                          (case system_prompts e login of
                             Inl err \<Rightarrow> \<lparr>reply = Inl err, set_cookie = [], calls = [GetUser token]\<rparr>
                           | Inr systemPrompts \<Rightarrow>
                               let ob = outbound (body req) selectedModel systemPrompts messages
                               in (case to_string token of
                                     Inl err \<Rightarrow> \<lparr>reply = Inr (Send 500 ''Internal server error''),
                                                 set_cookie = [], calls = [GetUser token]\<rparr>
                                   | Inr bearer \<Rightarrow>
                                       let authorization = ''Bearer '' @ bearer
                                       in (case chat_completions sv authorization ob of
                                             None \<Rightarrow>
                                               \<lparr>reply = Inr (Send 500 ''Internal server error''),
                                                set_cookie = [],
                                                calls = [GetUser token, ChatCompletions authorization ob]\<rparr>
                                           | Some apiRes \<Rightarrow>
                                               \<lparr>reply = Inr (Stream (up_status apiRes)
                                                               (write_head_headers (up_headers apiRes))
                                                               (pipe (up_body apiRes))),
                                                set_cookie = [],
                                                calls = [GetUser token, ChatCompletions authorization ob]\<rparr>))))
                 | Inr other \<Rightarrow> \<lparr>reply = Inr (Send 400 ''Invalid payload: messages array missing''),
                                set_cookie = [], calls = [GetUser token]\<rparr>)))"

section \<open>POST /query\<close>

definition initialize_result :: json where
  "initialize_result =
     JObj [(''protocolVersion'', JStr ''2025-03-26''),
           (''capabilities'',
              JObj [(''resources'', JObj [(''listChanged'', JBool False), (''subscribe'', JBool False)]),
                    (''prompts'', JObj [(''listChanged'', JBool False)]),
                    (''tools'', JObj [(''listChanged'', JBool False)]),
                    (''logging'', JObj [])]),
           (''serverInfo'', JObj [(''name'', JStr ''zeva-mcp-server''), (''version'', JStr ''1.0.0'')])]"

text \<open>The apostrophe of the description is U+2019, three bytes in UTF-8.\<close>

definition tools_list_result :: json where
  "tools_list_result =
     JObj [(''tools'',
        JArr [JObj [(''id'', JStr ''retrieve''),
                    (''name'', JStr ''Context Retrieval''),
                    (''description'',
                       JStr (''Fetch relevant context snippets for the user''
                             @ [CHR 0xE2, CHR 0x80, CHR 0x99] @ ''s query'')),
                    (''parameters'',
                       JObj [(''type'', JStr ''object''),
                             (''properties'',
                                JObj [(''query'',
                                   JObj [(''type'', JStr ''string''),
                                         (''description'', JStr ''User question to retrieve context for'')])]),
                             (''required'', JArr [JStr ''query''])])]])]"

text \<open>One item of the backend at position \<open>i\<close>; reading a property of a nullish item throws.\<close>

definition document :: "json \<Rightarrow> nat \<Rightarrow> js_error + json" where
  "document d i =
     (if nullish d then Inl TypeError
      else Inr (JObj [(''id'', coalesce (read_prop d ''id'') (JStr (decimal i))),
                      (''cursor'', coalesce (read_prop d ''cursor'') (JStr (decimal i))),
                      (''text'', read_prop d ''text''),
                      (''metadata'', coalesce (read_prop d ''metadata'') (JObj []))]))"

text \<open>\<open>docs.map((d, i) => ...)\<close> from position \<open>i\<close> on; the first item that throws ends it.\<close>

fun documents_from :: "nat \<Rightarrow> json list \<Rightarrow> js_error + json list" where
  "documents_from i [] = Inr []"
| "documents_from i (d # ds) =
     (case document d i of
        Inl err \<Rightarrow> Inl err
      | Inr doc \<Rightarrow> (case documents_from (Suc i) ds of
                      Inl err \<Rightarrow> Inl err
                    | Inr docs \<Rightarrow> Inr (doc # docs)))"

text \<open>\<open>docs.map\<close> on the value the backend returns: a TypeError unless it is an array.\<close>

fun map_documents :: "json \<Rightarrow> js_error + json list" where
  "map_documents (JArr items) = documents_from 0 items"
| "map_documents v = Inl TypeError"

definition rpc_result :: "json \<Rightarrow> json \<Rightarrow> json" where
  "rpc_result ident r = JObj [(''jsonrpc'', JStr ''2.0''), (''id'', ident), (''result'', r)]"

definition query_handler :: "services \<Rightarrow> request \<Rightarrow> outcome" where
  "query_handler sv req =
     (case get_prop (body req) ''method'' of
        Inl err \<Rightarrow> \<lparr>reply = Inl err, set_cookie = [], calls = []\<rparr>
      | Inr method \<Rightarrow>
          let ident = read_prop (body req) ''id'';
              params = read_prop (body req) ''params''
          in if method = JStr ''initialize''
             then \<lparr>reply = Inr (Json (rpc_result ident initialize_result)),
                   set_cookie = [], calls = []\<rparr>
             else if method = JStr ''notifications/initialized''
             then \<lparr>reply = Inr (End 204), set_cookie = [], calls = []\<rparr>
             else if method = JStr ''tools/list''
             then \<lparr>reply = Inr (Json (rpc_result ident tools_list_result)),
                   set_cookie = [], calls = []\<rparr>
             else if method = JStr ''retrieve''
             then (case get_prop params ''query'' of
                     Inl err \<Rightarrow> \<lparr>reply = Inl err, set_cookie = [], calls = []\<rparr>
                   | Inr q \<Rightarrow>
                       (case retrieveFromYourIndex sv q of
                          Inl err \<Rightarrow> \<lparr>reply = Inl err, set_cookie = [], calls = [Retrieve q]\<rparr>
                        | Inr docs \<Rightarrow>
                            (case map_documents docs of
                               Inl err \<Rightarrow> \<lparr>reply = Inl err, set_cookie = [], calls = [Retrieve q]\<rparr>
                             | Inr documents \<Rightarrow>
                                 \<lparr>reply = Inr (Json (rpc_result ident
                                                       (JObj [(''documents'', JArr documents)]))),
                                  set_cookie = [], calls = [Retrieve q]\<rparr>)))
             else (case to_string method of
                     Inl err \<Rightarrow> \<lparr>reply = Inl err, set_cookie = [], calls = []\<rparr>
                   | Inr name \<Rightarrow>
                       \<lparr>reply = Inr (Json (JObj [(''jsonrpc'', JStr ''2.0''),
                                                  (''id'', ident),
                                                  (''error'',
                                                     JObj [(''code'', JNum ''-32601''),
                                                           (''message'',
                                                              JStr (''Method not found: '' @ name))])])),
                        set_cookie = [], calls = []\<rparr>))"

section \<open>Positions as decimal strings\<close>



section \<open>The caller between two requests\<close>

text \<open>
  The same caller sends a later callback request with the query \<open>q\<close>: its cookies are the
  ones the browser holds once the cookies of the earlier reply are stored.
\<close>

definition after_reply ::
  "(json \<Rightarrow> json) \<Rightarrow> outcome \<Rightarrow> request \<Rightarrow> (string \<times> json) list \<Rightarrow> request" where
  "after_reply wire out req q =
     req\<lparr>query := q, cookies := store_cookies wire (set_cookie out) (cookies req)\<rparr>"

section \<open>Concrete runs\<close>

definition example_env :: env where
  "example_env =
     \<lparr>CLIENT_ID = ''Iv1.client'', CLIENT_SECRET = ''secret'', FQDN = ''https://gateway.example'',
      CONTEXT = '' Project Apollo '', DEFAULT_MODEL = ''c''\<rparr>"

definition example_upstream :: upstream where
  "example_upstream =
     \<lparr>up_status = 200, up_headers = [(''X-Request-Id'', ''r1'')], up_body = [''data: a'', ''data: b'']\<rparr>"

definition example_items :: "json list" where
  "example_items =
     [JObj [(''id'', JStr ''a''), (''text'', JStr ''t0'')],
      JObj [(''cursor'', JNull), (''text'', JStr ''t1'')],
      JObj [(''text'', JStr ''t2'')]]"

definition example_services :: services where
  "example_services =
     \<lparr>token_endpoint = (\<lambda>tr. Some (JObj [(''access_token'', JStr ''gho_1'')])),
      get_user = (\<lambda>t. Some (JObj [(''login'', JStr ''octocat'')])),
      chat_completions = (\<lambda>a b. Some example_upstream),
      retrieveFromYourIndex = (\<lambda>q. Inr (JArr example_items))\<rparr>"

definition rejecting_services :: services where
  "rejecting_services =
     example_services\<lparr>token_endpoint := (\<lambda>tr. Some (JObj [(''error'', JStr ''bad_verification_code'')]))\<rparr>"

definition example_callback :: request where
  "example_callback =
     \<lparr>query = [(''code'', JStr ''c1''), (''state'', JStr ''k3x9'')],
      cookies = [(''oauth_state'', JStr ''k3x9'')], headers = [], body = JUndefined\<rparr>"

definition forged_callback :: request where
  "forged_callback =
     \<lparr>query = [(''code'', JStr ''c1''), (''state'', JStr ''forged'')],
      cookies = [(''oauth_state'', JStr ''k3x9'')], headers = [], body = JUndefined\<rparr>"

definition example_chat :: request where
  "example_chat =
     \<lparr>query = [], cookies = [], headers = [(''x-github-token'', ''tok'')],
      body = JObj [(''messages'', JArr [JObj [(''role'', JStr ''user''), (''content'', JStr ''hi'')]]),
                   (''temperature'', JNum ''1''),
                   (''model'', JStr '' a '')]\<rparr>"

definition anonymous_chat :: request where
  "anonymous_chat = example_chat\<lparr>headers := []\<rparr>"


definition retrieve_without_params :: request where
  "retrieve_without_params =
     \<lparr>query = [], cookies = [], headers = [],
      body = JObj [(''jsonrpc'', JStr ''2.0''), (''id'', JNum ''8''), (''method'', JStr ''retrieve'')]\<rparr>"

definition example_unknown :: request where
  "example_unknown =
     \<lparr>query = [], cookies = [], headers = [],
      body = JObj [(''jsonrpc'', JStr ''2.0''), (''id'', JNum ''9''), (''method'', JStr ''foo'')]\<rparr>"

definition unprintable_method :: request where
  "unprintable_method =
     \<lparr>query = [], cookies = [], headers = [],
      body = JObj [(''jsonrpc'', JStr ''2.0''), (''id'', JNum ''5''),
                   (''method'', JObj [(''toString'', JNum ''1'')])]\<rparr>"

section \<open>Basic facts\<close>

lemma strict_eq_imp_eq: "strict_eq a b \<Longrightarrow> a = b"
  by (cases a) auto

lemma map_of_obj_set: "map_of (obj_set k v al) = (map_of al)(k \<mapsto> v)"
  by (induction al) auto

lemma entry_obj_set: "entry (obj_set k v al) k' = (if k' = k then v else entry al k')"
  by (simp add: entry_def map_of_obj_set)

lemma filter_obj_set:
  "k \<in> S \<Longrightarrow> filter (\<lambda>p. fst p \<notin> S) (obj_set k v al) = filter (\<lambda>p. fst p \<notin> S) al"
  by (induction al) auto


lemma lower_token_header: "map to_lower ''X-GitHub-Token'' = ''x-github-token''"
  by code_simp

lemma req_get_token:
  "req_get req ''X-GitHub-Token''
     = (case map_of (headers req) ''x-github-token'' of None \<Rightarrow> JUndefined | Some s \<Rightarrow> JStr s)"
  unfolding req_get_def lower_token_header ..

lemma trim_examples:
  "trim ''a'' = ''a''"
  "trim ''b'' = ''b''"
  "trim '' a '' = ''a''"
  "trim '' Project Apollo '' = ''Project Apollo''"
  by code_simp+

lemma body_with_method: "read_prop b k = JStr s \<Longrightarrow> \<not> nullish b"
  by (cases b) auto

subsection \<open>Lower case\<close>








subsection \<open>Decimal numerals\<close>






section \<open>The OAuth callback\<close>

text \<open>
  C1. A callback request whose \<open>code\<close> is absent, whose \<open>state\<close> is absent, or whose
  \<open>state\<close> differs from the \<open>oauth_state\<close> cookie (an absent cookie reads as
  \<open>undefined\<close>) is answered with status 400, and no call to the token endpoint is made.
\<close>

theorem callback_invalid_state_rejected:
  assumes "entry (query req) ''code'' = JUndefined
           \<or> entry (query req) ''state'' = JUndefined
           \<or> entry (query req) ''state'' \<noteq> entry (cookies req) ''oauth_state''"
  shows "reply (auth_callback e sv req) = Inr (Send 400 ''Invalid OAuth state or missing code'')
         \<and> replied_status (auth_callback e sv req) = Some 400
         \<and> calls (auth_callback e sv req) = []"
  using assms strict_eq_imp_eq [of "entry (query req) ''state''" "entry (cookies req) ''oauth_state''"]
  by (auto simp: auth_callback_def Let_def replied_status_def)

theorem callback_invalid_state_rejected_witness:
  "reply (auth_callback example_env example_services forged_callback)
     = Inr (Send 400 ''Invalid OAuth state or missing code'')
   \<and> replied_status (auth_callback example_env example_services forged_callback) = Some 400
   \<and> calls (auth_callback example_env example_services forged_callback) = []"
  using callback_invalid_state_rejected [of forged_callback example_env example_services]
  by (simp add: entry_def forged_callback_def)

text \<open>
  C9. When the state check passes and the token exchange fails (the request cannot be
  built, the call throws, the provider's answer carries a truthy \<open>error\<close>, or its
  \<open>access_token\<close> is omitted or otherwise falsy), the callback answers with status 500
  and writes no cookie, so the caller's cookies stay as they were.
\<close>

theorem token_exchange_failure:
  assumes "truthy (entry (query req) ''code'')"
      and "truthy (entry (query req) ''state'')"
      and "strict_eq (entry (query req) ''state'') (entry (cookies req) ''oauth_state'')"
      and "token_request e (entry (query req) ''code'') (entry (query req) ''state'') = built"
      and "(\<exists>err. built = Inl err)
           \<or> (\<exists>tr. built = Inr tr
                 \<and> (token_endpoint sv tr = None
                      \<or> (\<exists>tok. token_endpoint sv tr = Some tok
                                \<and> (truthy (read_prop tok ''error'')
                                     \<or> \<not> truthy (read_prop tok ''access_token'')))))"
  shows "reply (auth_callback e sv req) = Inr (Send 500 ''Authentication failed'')
         \<and> replied_status (auth_callback e sv req) = Some 500
         \<and> set_cookie (auth_callback e sv req) = []
         \<and> store_cookies wire (set_cookie (auth_callback e sv req)) (cookies req) = cookies req
         \<and> calls (auth_callback e sv req)
             = (case built of Inl err \<Rightarrow> [] | Inr tr \<Rightarrow> [TokenExchange tr])"
  using assms
  by (auto simp: auth_callback_def Let_def authentication_failed_def get_prop_def store_cookies_def
           replied_status_def
           split: option.splits sum.splits)

theorem token_exchange_failure_witness:
  "reply (auth_callback example_env rejecting_services example_callback)
      = Inr (Send 500 ''Authentication failed'')
   \<and> set_cookie (auth_callback example_env rejecting_services example_callback) = []
   \<and> calls (auth_callback example_env rejecting_services example_callback)
       = [TokenExchange [(''client_id'', ''Iv1.client''), (''client_secret'', ''secret''),
                         (''code'', ''c1''), (''redirect_uri'', ''https://gateway.example/auth/callback''),
                         (''state'', ''k3x9'')]]"
  using token_exchange_failure [where req = example_callback and e = example_env
      and sv = rejecting_services
      and built = "Inr [(''client_id'', ''Iv1.client''), (''client_secret'', ''secret''),
            (''code'', ''c1''), (''redirect_uri'', ''https://gateway.example/auth/callback''),
            (''state'', ''k3x9'')]"]
  by (simp add: example_callback_def rejecting_services_def example_services_def example_env_def
        entry_def token_request_def)

subsection \<open>The saved state after a callback\<close>

lemma set_cookie_auth_callback:
  "set_cookie (auth_callback e sv req) = []
   \<or> (\<exists>t. set_cookie (auth_callback e sv req) = [(''github_token'', t)])"
  by (auto simp: auth_callback_def Let_def authentication_failed_def split: option.splits sum.splits)

lemma auth_callback_reads:
  assumes "query req' = query req"
      and "entry (cookies req') ''oauth_state'' = entry (cookies req) ''oauth_state''"
  shows "auth_callback e sv req' = auth_callback e sv req"
  using assms by (simp add: auth_callback_def)

lemma store_keeps_oauth_state:
  assumes "written = [] \<or> (\<exists>t. written = [(''github_token'', t)])"
  shows "entry (store_cookies wire written jar) ''oauth_state'' = entry jar ''oauth_state''"
proof (cases "written = []")
  case True
  then show ?thesis by (simp add: store_cookies_def)
next
  case False
  with assms obtain t where "written = [(''github_token'', t)]" by blast
  then show ?thesis by (simp add: store_cookies_def entry_obj_set)
qed

text \<open>
  C2, as the code has it. The callback neither clears nor rewrites the \<open>oauth_state\<close>
  cookie: after any callback, accepted or not, the caller's cookies hold the same saved
  state as before, and a later callback request of the same caller, whatever its query,
  gets the outcome it would have got before the first one. A state that passed the check
  passes it again.
\<close>

theorem callback_keeps_oauth_state:
  "entry (cookies (after_reply wire (auth_callback e sv req) req q)) ''oauth_state''
     = entry (cookies req) ''oauth_state''
   \<and> auth_callback e sv (after_reply wire (auth_callback e sv req) req q)
       = auth_callback e sv (req\<lparr>query := q\<rparr>)"
proof -
  have kept: "entry (cookies (after_reply wire (auth_callback e sv req) req q)) ''oauth_state''
     = entry (cookies (req\<lparr>query := q\<rparr>)) ''oauth_state''"
    unfolding after_reply_def
    using store_keeps_oauth_state [OF set_cookie_auth_callback] by simp
  have asked: "query (after_reply wire (auth_callback e sv req) req q) = query (req\<lparr>query := q\<rparr>)"
    by (simp add: after_reply_def)
  have "auth_callback e sv (after_reply wire (auth_callback e sv req) req q)
       = auth_callback e sv (req\<lparr>query := q\<rparr>)"
    by (rule auth_callback_reads [OF asked kept])
  with kept show ?thesis
    by simp
qed

theorem callback_keeps_oauth_state_witness:
  "entry (cookies (after_reply id (auth_callback example_env rejecting_services example_callback)
                     example_callback [(''code'', JStr ''c2''), (''state'', JStr ''k3x9'')]))
      ''oauth_state'' = JStr ''k3x9''
   \<and> calls (auth_callback example_env rejecting_services
        (after_reply id (auth_callback example_env rejecting_services example_callback)
           example_callback [(''code'', JStr ''c2''), (''state'', JStr ''k3x9'')]))
      = calls (auth_callback example_env rejecting_services
           (example_callback\<lparr>query := [(''code'', JStr ''c2''), (''state'', JStr ''k3x9'')]\<rparr>))"
  using callback_keeps_oauth_state [of id example_env rejecting_services example_callback
      "[(''code'', JStr ''c2''), (''state'', JStr ''k3x9'')]"]
  by (simp add: example_callback_def entry_def)

text \<open>
  C2, as the claim states it, fails: a login is completed with the saved state \<open>k3x9\<close>
  (token cookie written, redirect to the root); a later callback of the same caller with
  another code and the state \<open>k3x9\<close> still finds \<open>k3x9\<close> in its cookies, passes the
  state check, reaches the token endpoint and is answered with the redirect again.
\<close>

theorem state_accepted_again_counterexample:
  "reply (auth_callback example_env example_services example_callback) = Inr (Redirect ''/'')
   \<and> entry (cookies (after_reply id (auth_callback example_env example_services example_callback)
                       example_callback [(''code'', JStr ''c2''), (''state'', JStr ''k3x9'')]))
        ''oauth_state'' = JStr ''k3x9''
   \<and> reply (auth_callback example_env example_services
        (after_reply id (auth_callback example_env example_services example_callback)
           example_callback [(''code'', JStr ''c2''), (''state'', JStr ''k3x9'')]))
       = Inr (Redirect ''/'')
   \<and> calls (auth_callback example_env example_services
        (after_reply id (auth_callback example_env example_services example_callback)
           example_callback [(''code'', JStr ''c2''), (''state'', JStr ''k3x9'')]))
       = [TokenExchange [(''client_id'', ''Iv1.client''), (''client_secret'', ''secret''),
                         (''code'', ''c2''), (''redirect_uri'', ''https://gateway.example/auth/callback''),
                         (''state'', ''k3x9'')]]"
  by (simp add: auth_callback_def after_reply_def store_cookies_def example_callback_def
        example_env_def example_services_def entry_def get_prop_def token_request_def)

section \<open>The chat proxy\<close>

text \<open>
  C6. A chat request with neither a \<open>github_token\<close> cookie nor an \<open>X-GitHub-Token\<close>
  header is answered with status 401, and neither the identity endpoint nor the
  completion endpoint is called.
\<close>

theorem agent_without_token_unauthorized:
  assumes "entry (cookies req) ''github_token'' = JUndefined"
      and "map_of (headers req) ''x-github-token'' = None"
  shows "reply (agent e sv req)
           = Inr (Send 401 ''Unauthorized: missing GitHub token. Please authenticate at /auth/authorization'')
         \<and> replied_status (agent e sv req) = Some 401
         \<and> calls (agent e sv req) = []"
  using assms by (simp add: agent_def js_or_def req_get_token replied_status_def)

theorem agent_without_token_unauthorized_witness:
  "reply (agent example_env example_services anonymous_chat)
           = Inr (Send 401 ''Unauthorized: missing GitHub token. Please authenticate at /auth/authorization'')
         \<and> calls (agent example_env example_services anonymous_chat) = []"
  using agent_without_token_unauthorized [of anonymous_chat example_env example_services]
  by (simp add: anonymous_chat_def example_chat_def entry_def)

text \<open>
  C5. The model is the body's model, then the model of the nested config, then the
  default. A body model that is not blank is the model (trimmed), whatever the config and
  the default are. With the body model absent, \<open>null\<close> or blank, a config model that is
  not blank is the model (trimmed), whatever the default is. With both absent, \<open>null\<close> or
  blank, or with no config at all, the default is the model. The cases of body \<open>a\<close>,
  config \<open>b\<close> and default \<open>c\<close> follow.
\<close>

theorem model_resolution_priority:
  "(trim a \<noteq> [] \<longrightarrow> select_model (JStr a) config dflt = Inr (JStr (trim a)))
   \<and> ((nullish bodyModel \<or> (\<exists>s. bodyModel = JStr s \<and> trim s = []))
        \<and> read_prop config ''model'' = JStr b \<and> trim b \<noteq> []
       \<longrightarrow> select_model bodyModel config dflt = Inr (JStr (trim b)))
   \<and> ((nullish bodyModel \<or> (\<exists>s. bodyModel = JStr s \<and> trim s = []))
        \<and> (nullish config \<or> nullish (read_prop config ''model'')
             \<or> (\<exists>s. read_prop config ''model'' = JStr s \<and> trim s = []))
       \<longrightarrow> select_model bodyModel config dflt = Inr (JStr dflt))"
proof (intro conjI impI)
  assume "trim a \<noteq> []"
  then show "select_model (JStr a) config dflt = Inr (JStr (trim a))"
    by (simp add: select_model_def)
next
  assume h: "(nullish bodyModel \<or> (\<exists>s. bodyModel = JStr s \<and> trim s = []))
        \<and> read_prop config ''model'' = JStr b \<and> trim b \<noteq> []"
  then have "\<not> nullish config"
    by (cases config) auto
  moreover from h have "\<exists>v. opt_trim bodyModel = Inr v \<and> \<not> truthy v"
    by (cases bodyModel) auto
  ultimately show "select_model bodyModel config dflt = Inr (JStr (trim b))"
    using h by (auto simp: select_model_def config_model_def)
next
  assume h: "(nullish bodyModel \<or> (\<exists>s. bodyModel = JStr s \<and> trim s = []))
        \<and> (nullish config \<or> nullish (read_prop config ''model'')
             \<or> (\<exists>s. read_prop config ''model'' = JStr s \<and> trim s = []))"
  then have body: "\<exists>v. opt_trim bodyModel = Inr v \<and> \<not> truthy v"
    by (cases bodyModel) auto
  from h have "\<exists>v. config_model config = Inr v \<and> \<not> truthy v"
    by (cases "read_prop config ''model''") (auto simp: config_model_def)
  with body show "select_model bodyModel config dflt = Inr (JStr dflt)"
    by (auto simp: select_model_def)
qed

theorem model_resolution_priority_witness:
  "select_model (JStr ''a'') (JObj [(''model'', JStr ''b'')]) ''c'' = Inr (JStr ''a'')
   \<and> select_model JUndefined (JObj [(''model'', JStr ''b'')]) ''c'' = Inr (JStr ''b'')
   \<and> select_model JUndefined JUndefined ''c'' = Inr (JStr ''c'')
   \<and> select_model JUndefined (JObj []) ''c'' = Inr (JStr ''c'')
   \<and> select_model (JStr '' a '') (JObj [(''model'', JStr ''b'')]) ''c'' = Inr (JStr ''a'')"
proof -
  have "select_model (JStr ''a'') (JObj [(''model'', JStr ''b'')]) ''c'' = Inr (JStr ''a'')"
    using model_resolution_priority [of "''a''" "JObj [(''model'', JStr ''b'')]" "''c''"]
    by (simp add: trim_examples)
  moreover have "select_model JUndefined (JObj [(''model'', JStr ''b'')]) ''c'' = Inr (JStr ''b'')"
    using model_resolution_priority [where bodyModel = JUndefined
        and config = "JObj [(''model'', JStr ''b'')]" and b = "''b''" and dflt = "''c''"]
    by (simp add: trim_examples entry_def)
  moreover have "select_model JUndefined JUndefined ''c'' = Inr (JStr ''c'')"
    using model_resolution_priority [where bodyModel = JUndefined and config = JUndefined
        and dflt = "''c''"]
    by simp
  moreover have "select_model JUndefined (JObj []) ''c'' = Inr (JStr ''c'')"
    using model_resolution_priority [where bodyModel = JUndefined and config = "JObj []"
        and dflt = "''c''"]
    by (simp add: entry_def)
  moreover have "select_model (JStr '' a '') (JObj [(''model'', JStr ''b'')]) ''c'' = Inr (JStr ''a'')"
    using model_resolution_priority [of "'' a ''" "JObj [(''model'', JStr ''b'')]" "''c''"]
    by (simp add: trim_examples)
  ultimately show ?thesis
    by simp
qed

subsection \<open>A chat request that is relayed\<close>

lemma resolve_login_SomeD:
  assumes "resolve_login sv token = Some login"
  obtains t handle where "token = JStr t" "to_string login = Inr handle"
  using assms
  by (auto simp: resolve_login_def split: json.splits option.splits sum.splits)

lemma agent_stream_cases:
  assumes "reply (agent e sv req) = Inr (Stream st hs events)"
  obtains t login handle messages selectedModel systemPrompts up where
    "js_or (entry (cookies req) ''github_token'') (req_get req ''X-GitHub-Token'') = JStr t"
    "resolve_login sv (JStr t) = Some login"
    "to_string login = Inr handle"
    "\<not> nullish (body req)"
    "read_prop (body req) ''messages'' = JArr messages"
    "select_model (read_prop (body req) ''model'') (read_prop (body req) ''config'') (DEFAULT_MODEL e)
       = Inr selectedModel"
    "system_prompts e login = Inr systemPrompts"
    "chat_completions sv (''Bearer '' @ t)
        (outbound (body req) selectedModel systemPrompts messages) = Some up"
    "agent e sv req =
       \<lparr>reply = Inr (Stream (up_status up) (write_head_headers (up_headers up)) (pipe (up_body up))),
        set_cookie = [],
        calls = [GetUser (JStr t),
                 ChatCompletions (''Bearer '' @ t)
                   (outbound (body req) selectedModel systemPrompts messages)]\<rparr>"
proof -
  let ?token = "js_or (entry (cookies req) ''github_token'') (req_get req ''X-GitHub-Token'')"
  from assms obtain login where login: "resolve_login sv ?token = Some login"
    by (auto simp: agent_def Let_def split: if_splits option.splits)
  then obtain t handle where t: "?token = JStr t" and handle: "to_string login = Inr handle"
    by (rule resolve_login_SomeD)
  from assms login t show ?thesis
    using that [of t login handle] handle
    by (simp add: agent_def Let_def get_prop_def
          split: if_splits option.splits sum.splits json.splits)
qed

lemma messages_array_object:
  assumes "read_prop b ''messages'' = JArr messages"
  obtains fields where "b = JObj fields"
  using assms by (cases b) auto

lemma example_chat_relayed:
  "reply (agent example_env example_services example_chat)
     = Inr (Stream 200 [(''Content-Type'', ''text/event-stream''), (''x-request-id'', ''r1'')]
              [Read ''data: a'', Write ''data: a'', Read ''data: b'', Write ''data: b'', Finish])"
  by code_simp

text \<open>
  C4. For every chat request that is relayed, the body sent upstream is the client's
  object with three keys written: \<open>messages\<close> is the handle entry, the domain entry and
  the project context entry, in this order, followed by the client's messages; \<open>stream\<close>
  is \<open>true\<close>; \<open>model\<close> is the selected model. Every other field of the client's object
  is there with its value, and these fields are in the client's order.
\<close>

theorem outbound_request_shape:
  assumes "reply (agent e sv req) = Inr (Stream st hs events)"
  shows "\<exists>token login handle messages selectedModel fields ob.
           body req = JObj fields
         \<and> entry fields ''messages'' = JArr messages
         \<and> resolve_login sv (JStr token) = Some login
         \<and> to_string login = Inr handle
         \<and> select_model (entry fields ''model'') (entry fields ''config'') (DEFAULT_MODEL e)
             = Inr selectedModel
         \<and> calls (agent e sv req) = [GetUser (JStr token), ChatCompletions (''Bearer '' @ token) (JObj ob)]
         \<and> entry ob ''messages''
             = JArr ([JObj [(''role'', JStr ''system''),
                            (''content'', JStr (''Start every response with: @'' @ handle))],
                      JObj [(''role'', JStr ''system''),
                            (''content'', JStr ''You are an expert assistant specializing in distributed systems and payments processing.'')],
                      JObj [(''role'', JStr ''system''),
                            (''content'', JStr (''Project-specific context:'' @ [CHR 0x0A] @ trim (CONTEXT e)))]]
                     @ messages)
         \<and> entry ob ''stream'' = JBool True
         \<and> entry ob ''model'' = selectedModel
         \<and> (\<forall>k. k \<notin> {''messages'', ''stream'', ''model''} \<longrightarrow> map_of ob k = map_of fields k)
         \<and> filter (\<lambda>p. fst p \<notin> {''messages'', ''stream'', ''model''}) ob
             = filter (\<lambda>p. fst p \<notin> {''messages'', ''stream'', ''model''}) fields"
proof -
  from assms obtain token login handle messages selectedModel systemPrompts up where
    login: "resolve_login sv (JStr token) = Some login"
    and handle: "to_string login = Inr handle"
    and msgs: "read_prop (body req) ''messages'' = JArr messages"
    and model: "select_model (read_prop (body req) ''model'') (read_prop (body req) ''config'')
                  (DEFAULT_MODEL e) = Inr selectedModel"
    and prompts: "system_prompts e login = Inr systemPrompts"
    and out: "agent e sv req =
       \<lparr>reply = Inr (Stream (up_status (up :: upstream)) (write_head_headers (up_headers up))
                       (pipe (up_body up))),
        set_cookie = [],
        calls = [GetUser (JStr token),
                 ChatCompletions (''Bearer '' @ token)
                   (outbound (body req) selectedModel systemPrompts messages)]\<rparr>"
    by (rule agent_stream_cases)
  from msgs obtain fields where fields: "body req = JObj fields"
    by (rule messages_array_object)
  define ob where "ob = obj_set ''messages'' (JArr (systemPrompts @ messages))
            (obj_set ''stream'' (JBool True) (obj_set ''model'' selectedModel fields))"
  have call: "calls (agent e sv req)
                = [GetUser (JStr token), ChatCompletions (''Bearer '' @ token) (JObj ob)]"
    by (simp add: out outbound_def fields ob_def)
  from prompts handle have sp: "systemPrompts =
       [JObj [(''role'', JStr ''system''),
              (''content'', JStr (''Start every response with: @'' @ handle))],
        JObj [(''role'', JStr ''system''),
              (''content'', JStr ''You are an expert assistant specializing in distributed systems and payments processing.'')],
        JObj [(''role'', JStr ''system''),
              (''content'', JStr (''Project-specific context:'' @ [CHR 0x0A] @ trim (CONTEXT e)))]]"
    by (simp add: system_prompts_def)
  have "entry ob ''messages'' = JArr (systemPrompts @ messages)"
    by (simp add: ob_def entry_obj_set)
  then have m: "entry ob ''messages''
             = JArr ([JObj [(''role'', JStr ''system''),
                            (''content'', JStr (''Start every response with: @'' @ handle))],
                      JObj [(''role'', JStr ''system''),
                            (''content'', JStr ''You are an expert assistant specializing in distributed systems and payments processing.'')],
                      JObj [(''role'', JStr ''system''),
                            (''content'', JStr (''Project-specific context:'' @ [CHR 0x0A] @ trim (CONTEXT e)))]]
                     @ messages)"
    by (simp only: sp)
  have s: "entry ob ''stream'' = JBool True"
    and md: "entry ob ''model'' = selectedModel"
    by (simp_all add: ob_def entry_obj_set)
  have others: "\<forall>k. k \<notin> {''messages'', ''stream'', ''model''} \<longrightarrow> map_of ob k = map_of fields k"
    by (simp add: ob_def map_of_obj_set)
  have verbatim: "filter (\<lambda>p. fst p \<notin> {''messages'', ''stream'', ''model''}) ob
             = filter (\<lambda>p. fst p \<notin> {''messages'', ''stream'', ''model''}) fields"
  proof -
    have "filter (\<lambda>p. fst p \<notin> {''messages'', ''stream'', ''model''}) ob
            = filter (\<lambda>p. fst p \<notin> {''messages'', ''stream'', ''model''})
                (obj_set ''stream'' (JBool True) (obj_set ''model'' selectedModel fields))"
      unfolding ob_def by (rule filter_obj_set) simp
    also have "\<dots> = filter (\<lambda>p. fst p \<notin> {''messages'', ''stream'', ''model''})
                (obj_set ''model'' selectedModel fields)"
      by (rule filter_obj_set) simp
    also have "\<dots> = filter (\<lambda>p. fst p \<notin> {''messages'', ''stream'', ''model''}) fields"
      by (rule filter_obj_set) simp
    finally show ?thesis .
  qed
  from fields msgs have msgs': "entry fields ''messages'' = JArr messages"
    by simp
  from fields model have model': "select_model (entry fields ''model'') (entry fields ''config'')
                  (DEFAULT_MODEL e) = Inr selectedModel"
    by simp
  show ?thesis
    by (intro exI conjI) (rule fields msgs' login handle model' call m s md others verbatim)+
qed

theorem outbound_request_shape_witness:
  "\<exists>fields ob token.
       body example_chat = JObj fields
     \<and> calls (agent example_env example_services example_chat)
         = [GetUser (JStr token), ChatCompletions (''Bearer '' @ token) (JObj ob)]
     \<and> entry ob ''stream'' = JBool True
     \<and> entry ob ''model'' = JStr ''a''
     \<and> map_of ob ''temperature'' = Some (JNum ''1'')"
proof -
  from outbound_request_shape [OF example_chat_relayed] show ?thesis
  proof (elim exE conjE)
    fix token login handle messages selectedModel fields ob
    assume fields: "body example_chat = JObj fields"
      and model: "select_model (entry fields ''model'') (entry fields ''config'')
                    (DEFAULT_MODEL example_env) = Inr selectedModel"
      and call: "calls (agent example_env example_services example_chat)
                   = [GetUser (JStr token), ChatCompletions (''Bearer '' @ token) (JObj ob)]"
      and stream: "entry ob ''stream'' = JBool True"
      and md: "entry ob ''model'' = selectedModel"
      and others: "\<forall>k. k \<notin> {''messages'', ''stream'', ''model''} \<longrightarrow> map_of ob k = map_of fields k"
    from fields have f: "fields = [(''messages'', JArr [JObj [(''role'', JStr ''user''), (''content'', JStr ''hi'')]]),
                     (''temperature'', JNum ''1''),
                     (''model'', JStr '' a '')]"
      by (simp add: example_chat_def)
    have "select_model (entry fields ''model'') (entry fields ''config'') (DEFAULT_MODEL example_env)
            = Inr (JStr ''a'')"
      unfolding f by (simp add: entry_def select_model_def trim_examples)
    with model have "selectedModel = JStr ''a''"
      by simp
    with md have md': "entry ob ''model'' = JStr ''a''"
      by simp
    from others have "map_of ob ''temperature'' = map_of fields ''temperature''"
      by simp
    then have temp: "map_of ob ''temperature'' = Some (JNum ''1'')"
      unfolding f by simp
    show ?thesis
      by (intro exI conjI) (rule fields call stream md' temp)+
  qed
qed

subsection \<open>The reply of the proxy\<close>




subsection \<open>The entries of the upstream headers\<close>













subsection \<open>The relay of the body\<close>









section \<open>The tool protocol\<close>

text \<open>
  C7, as the code has it. For a request whose body is an object or an array, whose
  \<open>method\<close> is none of \<open>initialize\<close>, \<open>notifications/initialized\<close>, \<open>tools/list\<close> and
  \<open>retrieve\<close>, and whose \<open>method\<close> has a string conversion, the handler answers with
  \<open>res.json\<close> (status 200): an object with the error code -32601, the message
  \<open>Method not found: \<close> followed by that string, and the \<open>id\<close> of the request. No backend
  is called. The string of a method that is a string is the method itself; the other
  conversions are those of the language.
\<close>

theorem unknown_method_error:
  assumes "\<not> nullish (body req)"
      and "read_prop (body req) ''method'' \<noteq> JStr ''initialize''"
      and "read_prop (body req) ''method'' \<noteq> JStr ''notifications/initialized''"
      and "read_prop (body req) ''method'' \<noteq> JStr ''tools/list''"
      and "read_prop (body req) ''method'' \<noteq> JStr ''retrieve''"
      and "to_string (read_prop (body req) ''method'') = Inr name"
  shows "reply (query_handler sv req)
           = Inr (Json (JObj [(''jsonrpc'', JStr ''2.0''),
                              (''id'', read_prop (body req) ''id''),
                              (''error'',
                                 JObj [(''code'', JNum ''-32601''),
                                       (''message'', JStr (''Method not found: '' @ name))])]))
         \<and> replied_status (query_handler sv req) = Some 200
         \<and> calls (query_handler sv req) = []
         \<and> (\<forall>s. read_prop (body req) ''method'' = JStr s \<longrightarrow> name = s)
         \<and> (\<forall>n. read_prop (body req) ''method'' = JNum n \<longrightarrow> name = n)
         \<and> (read_prop (body req) ''method'' = JUndefined \<longrightarrow> name = ''undefined'')
         \<and> (read_prop (body req) ''method'' = JNull \<longrightarrow> name = ''null'')
         \<and> (read_prop (body req) ''method'' = JBool True \<longrightarrow> name = ''true'')
         \<and> (read_prop (body req) ''method'' = JBool False \<longrightarrow> name = ''false'')
         \<and> (\<forall>kvs. read_prop (body req) ''method'' = JObj kvs \<longrightarrow> name = ''[object Object]'')
         \<and> (\<forall>s t. read_prop (body req) ''method'' = JArr [JStr s, JStr t] \<longrightarrow> name = s @ '','' @ t)"
proof -
  have main: "reply (query_handler sv req)
           = Inr (Json (JObj [(''jsonrpc'', JStr ''2.0''),
                              (''id'', read_prop (body req) ''id''),
                              (''error'',
                                 JObj [(''code'', JNum ''-32601''),
                                       (''message'', JStr (''Method not found: '' @ name))])]))
         \<and> replied_status (query_handler sv req) = Some 200
         \<and> calls (query_handler sv req) = []"
    using assms by (simp add: query_handler_def get_prop_def replied_status_def)
  have names: "(\<forall>s. read_prop (body req) ''method'' = JStr s \<longrightarrow> name = s)
         \<and> (\<forall>n. read_prop (body req) ''method'' = JNum n \<longrightarrow> name = n)
         \<and> (read_prop (body req) ''method'' = JUndefined \<longrightarrow> name = ''undefined'')
         \<and> (read_prop (body req) ''method'' = JNull \<longrightarrow> name = ''null'')
         \<and> (read_prop (body req) ''method'' = JBool True \<longrightarrow> name = ''true'')
         \<and> (read_prop (body req) ''method'' = JBool False \<longrightarrow> name = ''false'')
         \<and> (\<forall>kvs. read_prop (body req) ''method'' = JObj kvs \<longrightarrow> name = ''[object Object]'')
         \<and> (\<forall>s t. read_prop (body req) ''method'' = JArr [JStr s, JStr t] \<longrightarrow> name = s @ '','' @ t)"
    using assms(6) by (auto split: if_splits)
  from main names show ?thesis
    by simp
qed

theorem unknown_method_error_witness:
  "reply (query_handler example_services example_unknown)
           = Inr (Json (JObj [(''jsonrpc'', JStr ''2.0''),
                              (''id'', JNum ''9''),
                              (''error'',
                                 JObj [(''code'', JNum ''-32601''),
                                       (''message'', JStr ''Method not found: foo'')])]))
   \<and> replied_status (query_handler example_services example_unknown) = Some 200"
  using unknown_method_error [of example_unknown "''foo''" example_services]
  by (simp add: example_unknown_def entry_def)

text \<open>
  C7, as the claim states it, fails: the method of the request is an object with a
  \<open>toString\<close> member of its own, which is none of the four methods; building the message
  throws a TypeError, and the handler sends no JSON-RPC error and no reply at all.
\<close>

theorem unknown_method_counterexample:
  "read_prop (body unprintable_method) ''method'' \<noteq> JStr ''initialize''
   \<and> read_prop (body unprintable_method) ''method'' \<noteq> JStr ''notifications/initialized''
   \<and> read_prop (body unprintable_method) ''method'' \<noteq> JStr ''tools/list''
   \<and> read_prop (body unprintable_method) ''method'' \<noteq> JStr ''retrieve''
   \<and> reply (query_handler example_services unprintable_method) = Inl TypeError
   \<and> replied_status (query_handler example_services unprintable_method) = None"
  by (simp add: unprintable_method_def query_handler_def get_prop_def entry_def replied_status_def)

text \<open>
  C10. A \<open>retrieve\<close> request without \<open>params\<close>: reading \<open>params.query\<close> throws a
  TypeError, the handler gives no reply, and the backend is not called.
\<close>

theorem retrieve_without_params_throws:
  assumes "read_prop (body req) ''method'' = JStr ''retrieve''"
      and "read_prop (body req) ''params'' = JUndefined"
  shows "reply (query_handler sv req) = Inl TypeError
         \<and> replied_status (query_handler sv req) = None
         \<and> calls (query_handler sv req) = []"
proof -
  from assms(1) have "\<not> nullish (body req)"
    by (rule body_with_method)
  with assms show ?thesis
    by (simp add: query_handler_def get_prop_def replied_status_def)
qed

theorem retrieve_without_params_throws_witness:
  "reply (query_handler example_services retrieve_without_params) = Inl TypeError
   \<and> calls (query_handler example_services retrieve_without_params) = []"
  using retrieve_without_params_throws [of retrieve_without_params example_services]
  by (simp add: retrieve_without_params_def entry_def)

subsection \<open>The documents of a retrieve call\<close>





end
